theory Spec2Isabelle
  imports Complex_Main
begin

section \<open>The Mode query plugin: data model\<close>

text \<open>
  The plugin (\<^verbatim>\<open>packages/plugin-mode-query/src/index.ts\<close>) has three handlers. Each one
  reads the text of a chat message, issues one HTTP GET to the explorer, and calls the
  completion callback with a reply text. The embedding makes the effects explicit: a
  handler returns the list of the observable actions it performed, in order, and whether
  it returned.

  Strings are lists of 8-bit characters. A JavaScript value that is either a string or
  \<^verbatim>\<open>undefined\<close> is a \<open>string option\<close>; the fields of the explorer's JSON follow the
  interfaces the source declares, each one possibly missing.
\<close>

subsection \<open>JavaScript operators on optional strings\<close>

definition falsy :: "string option \<Rightarrow> bool" where
  \<comment> \<open>\<^verbatim>\<open>!v\<close>: \<^verbatim>\<open>undefined\<close> and the empty string are falsy, every other string is truthy\<close>
  "falsy v = (case v of None \<Rightarrow> True | Some s \<Rightarrow> s = [])"

definition or_else :: "string option \<Rightarrow> string \<Rightarrow> string" where
  \<comment> \<open>\<^verbatim>\<open>v || 'literal'\<close>\<close>
  "or_else v d = (if falsy v then d else the v)"

definition interpolate :: "string option \<Rightarrow> string" where
  \<comment> \<open>\<^verbatim>\<open>${v}\<close> inside a template literal\<close>
  "interpolate v = (case v of None \<Rightarrow> ''undefined'' | Some s \<Rightarrow> s)"

definition loose_eq :: "string option \<Rightarrow> string \<Rightarrow> bool" where
  \<comment> \<open>\<^verbatim>\<open>v == 'literal'\<close>; on a string or \<^verbatim>\<open>undefined\<close> it agrees with \<^verbatim>\<open>===\<close>\<close>
  "loose_eq v s = (v = Some s)"

fun join :: "string \<Rightarrow> string list \<Rightarrow> string" where
  "join sep [] = []"
| "join sep [x] = x"
| "join sep (x # y # ys) = x @ sep @ join sep (y # ys)"

subsection \<open>The explorer's response\<close>

record Block =
  height :: "string option"
  block_timestamp :: "string option"
  block_hash :: "string option"

record Transaction =
  tx_hash :: "string option"
  tx_value :: "string option"
  tx_timestamp :: "string option"

record TransactionPage =
  page_items :: "Transaction list option"

record BlockscoutResponse =
  items :: "Block list option"
  data :: "TransactionPage option"
  status :: "string option"
  message :: "string option"
  coin_balance :: "string option"

text \<open>
  \<open>items\<close> is declared \<^verbatim>\<open>any\<close>; the latest-block handler reads it as the list of
  blocks. \<open>data\<close> is read by the transactions handler only, at the type
  \<^verbatim>\<open>{items: Transaction[]}\<close>.
\<close>

subsection \<open>The handler's arguments\<close>

record Memory =
  content_text :: string

record Options =
  address :: "string option"

text \<open>
  \<^verbatim>\<open>runtime\<close> and \<^verbatim>\<open>state\<close> are never read. \<^verbatim>\<open>options\<close> may itself be missing
  (\<^verbatim>\<open>options?.address\<close>), and so may the callback.
\<close>

definition options_address :: "Options option \<Rightarrow> string option" where
  \<comment> \<open>\<^verbatim>\<open>options?.address\<close>\<close>
  "options_address options = (case options of None \<Rightarrow> None | Some opts \<Rightarrow> address opts)"

subsection \<open>Errors, the HTTP call and observable actions\<close>

datatype js_error = Error (error_message: string)

datatype http_outcome =
    Resolves "BlockscoutResponse option"
  | Rejects js_error
  | Hangs

text \<open>
  \<^verbatim>\<open>axios.get\<close> resolves with a response whose \<^verbatim>\<open>data\<close> is the parsed envelope
  (\<open>None\<close> when it is \<^verbatim>\<open>null\<close> or \<^verbatim>\<open>undefined\<close>), or rejects with an error, or never
  settles (no timeout is set). The network is a function from the URL to the outcome.

  Reading a property of \<^verbatim>\<open>undefined\<close> or \<^verbatim>\<open>null\<close> throws a \<^verbatim>\<open>TypeError\<close> whose message
  is chosen by the JavaScript engine; the handlers take the engine's message for each
  property name as a parameter.
\<close>

type_synonym network = "string \<Rightarrow> http_outcome"
type_synonym engine = "string \<Rightarrow> string"

datatype event =
    HttpGet string
  | Callback string
  | ConsoleLogString "string option"
  | ConsoleLogBlock "Block option"
  | LoggerLog string
  | LoggerError string js_error

datatype try_end = Done | Throws js_error | Awaiting

datatype completion = Returned | Pending | Rejected js_error

text \<open>
  The callback belongs to the host. Called for the \<open>n\<close>-th time during one run of a handler
  (counting from \<open>0\<close>) with a reply text, it returns normally (\<open>None\<close>) or throws an error.
  The promise it returns is never awaited, so only a synchronous throw reaches the handler.
  A call is an observable action whether it throws or not. The loggers are taken to
  return normally.

  A handler is an \<^verbatim>\<open>async\<close> function: it returns, or stays pending on an \<^verbatim>\<open>await\<close> that
  never settles, or is rejected with an error thrown out of its \<^verbatim>\<open>catch\<close> block.
\<close>

type_synonym HandlerCallback = "nat \<Rightarrow> string \<Rightarrow> js_error option"

definition callbacks :: "event list \<Rightarrow> string list" where
  "callbacks evs = concat (map (\<lambda>e. case e of Callback t \<Rightarrow> [t] | _ \<Rightarrow> []) evs)"

definition http_requests :: "event list \<Rightarrow> string list" where
  "http_requests evs = concat (map (\<lambda>e. case e of HttpGet u \<Rightarrow> [u] | _ \<Rightarrow> []) evs)"

definition reply_in_try :: "HandlerCallback \<Rightarrow> event list \<Rightarrow> string \<Rightarrow> event list \<times> try_end" where
  \<comment> \<open>\<^verbatim>\<open>callback({text: reply})\<close> inside the \<^verbatim>\<open>try\<close> block, after the actions \<open>evs\<close>, as the
      last statement executed there\<close>
  "reply_in_try callback evs reply =
     (evs @ [Callback reply],
      case callback (length (callbacks evs)) reply of
        None \<Rightarrow> Done
      | Some thrown \<Rightarrow> Throws thrown)"

definition reply_in_catch ::
  "HandlerCallback \<Rightarrow> event list \<Rightarrow> string \<Rightarrow> event list \<times> completion" where
  \<comment> \<open>\<^verbatim>\<open>callback({text: reply})\<close> as the last statement of the \<^verbatim>\<open>catch\<close> block\<close>
  "reply_in_catch callback evs reply =
     (evs @ [Callback reply],
      case callback (length (callbacks evs)) reply of
        None \<Rightarrow> Returned
      | Some thrown \<Rightarrow> Rejected thrown)"

definition BLOCKSCOUT_API :: string where
  "BLOCKSCOUT_API = ''https://explorer.mode.network/api''"

section \<open>The address extractor\<close>

text \<open>
  \<^verbatim>\<open>text.match(/0x[a-fA-F0-9]{40}/)\<close>: the regular expression has no anchors and no
  flags, so the match is the leftmost position at which \<^verbatim>\<open>0x\<close> and forty hexadecimal
  characters follow, and the matched text is those forty-two characters.
\<close>

definition is_hex :: "char \<Rightarrow> bool" where
  "is_hex c = (let n = (of_char c :: nat) in
     (97 \<le> n \<and> n \<le> 102) \<or> (65 \<le> n \<and> n \<le> 70) \<or> (48 \<le> n \<and> n \<le> 57))"

definition is_address :: "string \<Rightarrow> bool" where
  "is_address a = (length a = 42 \<and> take 2 a = ''0x'' \<and> list_all is_hex (drop 2 a))"

fun match_address :: "string \<Rightarrow> string option" where
  "match_address [] = None"
| "match_address (c # cs) =
     (if is_address (take 42 (c # cs)) then Some (take 42 (c # cs)) else match_address cs)"

definition extract_address :: "Memory \<Rightarrow> Options option \<Rightarrow> string option" where
  \<comment> \<open>\<^verbatim>\<open>addressMatch ? addressMatch[0] : options?.address\<close>\<close>
  "extract_address msg options =
     (case match_address (content_text msg) of
        Some a \<Rightarrow> Some a
      | None \<Rightarrow> options_address options)"

definition contains_address :: "string \<Rightarrow> bool" where
  \<comment> \<open>the text has a substring of the shape \<^verbatim>\<open>0x\<close> + 40 hexadecimal characters\<close>
  "contains_address t = (\<exists>pre a post. t = pre @ a @ post \<and> is_address a)"

section \<open>Numbers\<close>

text \<open>
  \<^verbatim>\<open>(Number(balanceInWei) / 1e18).toFixed(5)\<close> is computed on IEEE 754 binary64 values.
  A finite double is a rational number together with a sign (zero is signed); the
  operations of ECMAScript are the exact operations followed by rounding to the nearest
  double, ties to the even significand.
\<close>

datatype number = NaN | Infinity bool | Finite bool rat

definition round_half_even :: "rat \<Rightarrow> int" where
  "round_half_even r =
     (let f = \<lfloor>r\<rfloor>; d = r - of_int f in
      if d < 1 / 2 then f else if 1 / 2 < d then f + 1 else if even f then f else f + 1)"

function bit_length :: "int \<Rightarrow> nat" where
  "bit_length n = (if n \<le> 0 then 0 else Suc (bit_length (n div 2)))"
  by pat_completeness auto
termination
  by (relation "measure nat") auto

definition pow2 :: "int \<Rightarrow> rat" where
  "pow2 e = (if 0 \<le> e then 2 ^ nat e else 1 / 2 ^ nat (- e))"

definition pow10 :: "int \<Rightarrow> rat" where
  "pow10 e = (if 0 \<le> e then 10 ^ nat e else 1 / 10 ^ nat (- e))"

definition binary_exponent :: "rat \<Rightarrow> int" where
  \<comment> \<open>for \<open>0 < q\<close>, the \<open>e\<close> with \<open>2 ^ e \<le> q < 2 ^ (e + 1)\<close>\<close>
  "binary_exponent q =
     (let (a, b) = quotient_of q;
          d = int (bit_length a) - int (bit_length b) in
      if pow2 d \<le> q then d else d - 1)"

definition round_double :: "rat \<Rightarrow> rat option" where
  \<comment> \<open>the double nearest to \<open>q \<ge> 0\<close>: 53 significant bits, the least exponent \<open>-1074\<close>;
      \<open>None\<close> when the result exceeds the largest double\<close>
  "round_double q =
     (if q = 0 then Some 0
      else (let p = max (binary_exponent q - 52) (- 1074);
                r = of_int (round_half_even (q / pow2 p)) * pow2 p in
            if 2 ^ 1024 \<le> r then None else Some r))"

definition to_number :: "bool \<Rightarrow> rat \<Rightarrow> number" where
  "to_number negative q =
     (case round_double q of None \<Rightarrow> Infinity negative | Some r \<Rightarrow> Finite negative r)"

subsection \<open>\<^verbatim>\<open>Number(string)\<close>\<close>

definition is_digit :: "char \<Rightarrow> bool" where
  "is_digit c = (48 \<le> (of_char c :: nat) \<and> (of_char c :: nat) \<le> 57)"

definition is_white :: "char \<Rightarrow> bool" where
  \<comment> \<open>the white space and line terminators that fit in eight bits\<close>
  "is_white c = ((of_char c :: nat) \<in> {9, 10, 11, 12, 13, 32, 160})"

definition digit_value :: "char \<Rightarrow> int" where
  "digit_value c =
     (let n = (of_char c :: int) in
      if 97 \<le> n then n - 87 else if 65 \<le> n then n - 55 else n - 48)"

definition digits_value :: "int \<Rightarrow> string \<Rightarrow> int" where
  "digits_value base ds = foldl (\<lambda>acc c. base * acc + digit_value c) 0 ds"

definition trim :: "string \<Rightarrow> string" where
  "trim s = rev (dropWhile is_white (rev (dropWhile is_white s)))"

definition non_decimal_literal :: "string \<Rightarrow> int option" where
  \<comment> \<open>\<^verbatim>\<open>0x\<close>, \<^verbatim>\<open>0o\<close> and \<^verbatim>\<open>0b\<close> integer literals, which take no sign\<close>
  "non_decimal_literal s =
     (if 2 < length s \<and> hd s = CHR ''0'' then
        (let p = s ! 1; ds = drop 2 s in
         if p \<in> {CHR ''x'', CHR ''X''} \<and> list_all is_hex ds then Some (digits_value 16 ds)
         else if p \<in> {CHR ''o'', CHR ''O''} \<and> list_all (\<lambda>c. is_digit c \<and> digit_value c < 8) ds
           then Some (digits_value 8 ds)
         else if p \<in> {CHR ''b'', CHR ''B''} \<and> list_all (\<lambda>c. is_digit c \<and> digit_value c < 2) ds
           then Some (digits_value 2 ds)
         else None)
      else None)"

definition exponent_part :: "string \<Rightarrow> int option" where
  \<comment> \<open>nothing, or \<^verbatim>\<open>e\<close>/\<^verbatim>\<open>E\<close> with an optionally signed run of digits\<close>
  "exponent_part s =
     (case s of
        [] \<Rightarrow> Some 0
      | c # rest \<Rightarrow>
          if c \<in> {CHR ''e'', CHR ''E''} then
            (let negative = (rest \<noteq> [] \<and> hd rest = CHR ''-'');
                 ds = (if rest \<noteq> [] \<and> hd rest \<in> {CHR ''+'', CHR ''-''} then tl rest else rest) in
             if ds \<noteq> [] \<and> list_all is_digit ds
             then Some (if negative then - digits_value 10 ds else digits_value 10 ds)
             else None)
          else None)"

definition unsigned_decimal_literal :: "string \<Rightarrow> rat option" where
  \<comment> \<open>digits, an optional fraction, an optional exponent; at least one digit before the exponent\<close>
  "unsigned_decimal_literal s =
     (let ip = takeWhile is_digit s;
          r1 = dropWhile is_digit s;
          dotted = (r1 \<noteq> [] \<and> hd r1 = CHR ''.'');
          fp = (if dotted then takeWhile is_digit (tl r1) else []);
          r2 = (if dotted then dropWhile is_digit (tl r1) else r1) in
      if ip = [] \<and> fp = [] then None
      else (case exponent_part r2 of
              None \<Rightarrow> None
            | Some e \<Rightarrow>
                Some ((of_int (digits_value 10 ip) + of_int (digits_value 10 fp) / 10 ^ length fp)
                      * pow10 e)))"

definition Number :: "string \<Rightarrow> number" where
  "Number str =
     (let s = trim str in
      if s = [] then Finite False 0
      else (case non_decimal_literal s of
              Some n \<Rightarrow> to_number False (of_int n)
            | None \<Rightarrow>
                (let negative = (hd s = CHR ''-'');
                     u = (if hd s \<in> {CHR ''+'', CHR ''-''} then tl s else s) in
                 if u = ''Infinity'' then Infinity negative
                 else (case unsigned_decimal_literal u of
                         None \<Rightarrow> NaN
                       | Some q \<Rightarrow> to_number negative q))))"

subsection \<open>Division and \<^verbatim>\<open>toFixed\<close>\<close>

definition divide_by :: "number \<Rightarrow> rat \<Rightarrow> number" where
  \<comment> \<open>\<^verbatim>\<open>x / d\<close> for a finite \<open>d > 0\<close>\<close>
  "divide_by x d =
     (case x of
        NaN \<Rightarrow> NaN
      | Infinity negative \<Rightarrow> Infinity negative
      | Finite negative q \<Rightarrow> to_number negative (q / d))"

function decimal :: "int \<Rightarrow> string" where
  \<comment> \<open>the decimal digits of \<open>n \<ge> 0\<close>\<close>
  "decimal n =
     (if n < 10 then [char_of (48 + n)] else decimal (n div 10) @ [char_of (48 + n mod 10)])"
  by pat_completeness auto
termination
  by (relation "measure nat") auto

definition shortest_integer :: "rat \<Rightarrow> int" where
  \<comment> \<open>for a double \<open>q \<ge> 10 ^ 21\<close>: the integer with the fewest significant digits that rounds
      to \<open>q\<close>, the nearest to \<open>q\<close> among those, the even one on a tie\<close>
  "shortest_integer q =
     (let len = length (decimal \<lfloor>q\<rfloor>);
          candidates = (\<lambda>k.
            let scale = 10 ^ (len - k);
                lo = \<lfloor>q / of_int scale\<rfloor>;
                ok = (\<lambda>n. round_double (of_int (n * scale)) = Some q);
                dlo = q - of_int (lo * scale);
                dhi = of_int ((lo + 1) * scale) - q in
            if ok lo \<and> ok (lo + 1) then
              (if dlo < dhi \<or> (dlo = dhi \<and> even lo) then [lo * scale] else [(lo + 1) * scale])
            else if ok lo then [lo * scale]
            else if ok (lo + 1) then [(lo + 1) * scale]
            else []) in
      case concat (map candidates [1 ..< 18]) of
        [] \<Rightarrow> \<lfloor>q\<rfloor>
      | n # _ \<Rightarrow> n)"

definition exponential :: "int \<Rightarrow> string" where
  \<comment> \<open>\<^verbatim>\<open>d.ddde+x\<close>, the notation of \<^verbatim>\<open>String(n)\<close> for \<open>n \<ge> 10 ^ 21\<close>\<close>
  "exponential n =
     (let ds = decimal n;
          sig = rev (dropWhile (\<lambda>c. c = CHR ''0'') (rev ds));
          e = decimal (int (length ds) - 1) in
      if length sig = 1 then sig @ ''e+'' @ e
      else hd sig # ''.'' @ tl sig @ ''e+'' @ e)"

definition fixed :: "rat \<Rightarrow> nat \<Rightarrow> string" where
  \<comment> \<open>the integer \<open>n\<close> with \<open>n / 10 ^ f\<close> nearest to \<open>q\<close>, the larger one on a tie, printed with
      \<open>f\<close> digits after the point\<close>
  "fixed q f =
     (let n = \<lfloor>q * 10 ^ f + 1 / 2\<rfloor>;
          m = decimal n;
          m' = (if length m \<le> f then replicate (f + 1 - length m) (CHR ''0'') @ m else m);
          k = length m' in
      if f = 0 then m else take (k - f) m' @ ''.'' @ drop (k - f) m')"

definition toFixed :: "number \<Rightarrow> nat \<Rightarrow> string" where
  "toFixed x f =
     (case x of
        NaN \<Rightarrow> ''NaN''
      | Infinity negative \<Rightarrow> (if negative then ''-Infinity'' else ''Infinity'')
      | Finite negative q \<Rightarrow>
          (if negative \<and> 0 < q then ''-'' else []) @
          (if 10 ^ 21 \<le> q then exponential (shortest_integer q) else fixed q f))"

section \<open>The balance handler\<close>

definition balanceInWei :: "BlockscoutResponse \<Rightarrow> string" where
  \<comment> \<open>line 90: \<^verbatim>\<open>const balanceInWei = response.data.coin_balance || '2'\<close>\<close>
  "balanceInWei env = or_else (coin_balance env) ''2''"

definition balance :: "string \<Rightarrow> string" where
  \<comment> \<open>line 91: \<^verbatim>\<open>const balance = (Number(balanceInWei) / 1e18).toFixed(5)\<close>\<close>
  "balance wei = toFixed (divide_by (Number wei) (10 ^ 18)) 5"

definition getBalance_try ::
  "network \<Rightarrow> Memory \<Rightarrow> Options option \<Rightarrow> HandlerCallback \<Rightarrow> event list \<times> try_end" where
  "getBalance_try http msg options callback =
     (let address = extract_address msg options in
      if falsy address then
        reply_in_try callback [] ''Please provide a valid Mode network address''
      else
        (let url = BLOCKSCOUT_API @ ''/v2/addresses/'' @ interpolate address in
         case http url of
           Hangs \<Rightarrow> ([HttpGet url], Awaiting)
         | Rejects e \<Rightarrow> ([HttpGet url], Throws e)
         | Resolves response_data \<Rightarrow>
             (case response_data of
                None \<Rightarrow> reply_in_try callback [HttpGet url] ''Failed to fetch balance''
              | Some env \<Rightarrow>
                  if loose_eq (status env) ''success'' then
                    reply_in_try callback [HttpGet url]
                      (or_else (message env) ''Failed to fetch balance'')
                  else
                    reply_in_try callback
                      [HttpGet url,
                       ConsoleLogString (coin_balance env),
                       LoggerLog (''Balance for address '' @ interpolate address @ '': '' @
                                  balance (balanceInWei env))]
                      (''The balance for '' @ interpolate address @ '' is '' @
                       balance (balanceInWei env) @ '' ETH''))))"

definition getBalance_handler ::
  "network \<Rightarrow> Memory \<Rightarrow> Options option \<Rightarrow> HandlerCallback option \<Rightarrow>
     event list \<times> completion" where
  "getBalance_handler http msg options callback_opt =
     (case callback_opt of
        None \<Rightarrow> ([], Returned)
      | Some callback \<Rightarrow>
          (case getBalance_try http msg options callback of
             (evs, Done) \<Rightarrow> (evs, Returned)
           | (evs, Awaiting) \<Rightarrow> (evs, Pending)
           | (evs, Throws error) \<Rightarrow>
               reply_in_catch callback
                 (evs @ [LoggerError ''Error fetching balance:'' error])
                 (''Failed to fetch balance: '' @ error_message error)))"

section \<open>The latest-block handler\<close>

definition render_block :: "Block \<Rightarrow> string" where
  "render_block block =
     ''Latest block:'' @ ''\<newline>'' @ ''Number: '' @ or_else (height block) ''N/A'' @ ''\<newline>'' @
     ''Timestamp: '' @ or_else (block_timestamp block) ''N/A'' @ ''\<newline>'' @
     ''Hash: '' @ or_else (block_hash block) ''N/A''"

definition getLatestBlock_try ::
  "engine \<Rightarrow> network \<Rightarrow> HandlerCallback \<Rightarrow> event list \<times> try_end" where
  "getLatestBlock_try type_error http callback =
     (let url = BLOCKSCOUT_API @ ''/v2/blocks'' in
      case http url of
        Hangs \<Rightarrow> ([HttpGet url], Awaiting)
      | Rejects e \<Rightarrow> ([HttpGet url], Throws e)
      | Resolves response_data \<Rightarrow>
          (case response_data of
             None \<Rightarrow> ([HttpGet url], Throws (Error (type_error ''items'')))
           | Some env \<Rightarrow>
               (case items env of
                  None \<Rightarrow> ([HttpGet url], Throws (Error (type_error ''0'')))
                | Some blocks \<Rightarrow>
                    (let first = (case blocks of [] \<Rightarrow> None | b # _ \<Rightarrow> Some b);
                         logged = [HttpGet url, ConsoleLogBlock first] in
                     if loose_eq (status env) ''success'' then
                       reply_in_try callback logged
                         (or_else (message env) ''Failed to fetch latest block'')
                     else
                       (case first of
                          None \<Rightarrow> (logged, Throws (Error (type_error ''height'')))
                        | Some block \<Rightarrow> reply_in_try callback logged (render_block block))))))"

definition getLatestBlock_handler ::
  "engine \<Rightarrow> network \<Rightarrow> HandlerCallback option \<Rightarrow> event list \<times> completion" where
  "getLatestBlock_handler type_error http callback_opt =
     (case callback_opt of
        None \<Rightarrow> ([], Returned)
      | Some callback \<Rightarrow>
          (case getLatestBlock_try type_error http callback of
             (evs, Done) \<Rightarrow> (evs, Returned)
           | (evs, Awaiting) \<Rightarrow> (evs, Pending)
           | (evs, Throws error) \<Rightarrow>
               reply_in_catch callback
                 (evs @ [LoggerError ''Error fetching latest block:'' error])
                 (''Failed to fetch latest block: '' @ error_message error)))"

section \<open>The transactions handler\<close>

definition render_transaction :: "Transaction \<Rightarrow> string" where
  "render_transaction tx =
     ''Hash: '' @ interpolate (tx_hash tx) @ ''\<newline>'' @
     ''Value: '' @ or_else (tx_value tx) ''0'' @ '' ETH'' @ ''\<newline>'' @
     ''Timestamp: '' @ or_else (tx_timestamp tx) ''N/A''"

definition response_transactions :: "BlockscoutResponse \<Rightarrow> Transaction list" where
  \<comment> \<open>\<^verbatim>\<open>response.data.data?.items || []\<close>; an array, even an empty one, is truthy\<close>
  "response_transactions env =
     (case data env of
        None \<Rightarrow> []
      | Some page \<Rightarrow> (case page_items page of None \<Rightarrow> [] | Some txs \<Rightarrow> txs))"

definition getTransactions_try ::
  "network \<Rightarrow> Memory \<Rightarrow> Options option \<Rightarrow> HandlerCallback \<Rightarrow> event list \<times> try_end" where
  "getTransactions_try http msg options callback =
     (let address = extract_address msg options in
      if falsy address then
        reply_in_try callback [] ''Please provide a valid Mode network address''
      else
        (let url = BLOCKSCOUT_API @ ''/v2/addresses/'' @ interpolate address @ ''/transactions'' in
         case http url of
           Hangs \<Rightarrow> ([HttpGet url], Awaiting)
         | Rejects e \<Rightarrow> ([HttpGet url], Throws e)
         | Resolves response_data \<Rightarrow>
             (case response_data of
                None \<Rightarrow> reply_in_try callback [HttpGet url] ''Failed to fetch transactions''
              | Some env \<Rightarrow>
                  if \<not> loose_eq (status env) ''success'' then
                    reply_in_try callback [HttpGet url]
                      (or_else (message env) ''Failed to fetch transactions'')
                  else
                    (let transactions = response_transactions env in
                     if length transactions = 0 then
                       reply_in_try callback [HttpGet url]
                         (''No transactions found for '' @ interpolate address)
                     else
                       (let txSummary =
                              join ''\<newline>\<newline>'' (map render_transaction (take 5 transactions)) in
                        reply_in_try callback [HttpGet url]
                          (''Recent transactions for '' @ interpolate address @ '':'' @
                           ''\<newline>\<newline>'' @ txSummary))))))"

definition getTransactions_handler ::
  "network \<Rightarrow> Memory \<Rightarrow> Options option \<Rightarrow> HandlerCallback option \<Rightarrow>
     event list \<times> completion" where
  "getTransactions_handler http msg options callback_opt =
     (case callback_opt of
        None \<Rightarrow> ([], Returned)
      | Some callback \<Rightarrow>
          (case getTransactions_try http msg options callback of
             (evs, Done) \<Rightarrow> (evs, Returned)
           | (evs, Awaiting) \<Rightarrow> (evs, Pending)
           | (evs, Throws error) \<Rightarrow>
               reply_in_catch callback
                 (evs @ [LoggerError ''Error fetching transactions:'' error])
                 (''Failed to fetch transactions: '' @ error_message error)))"

section \<open>Example inputs\<close>

definition quiet_callback :: HandlerCallback where
  \<comment> \<open>a callback that returns normally every time\<close>
  "quiet_callback n reply = None"


definition no_network :: network where
  \<comment> \<open>a network on which no request settles\<close>
  "no_network url = Hangs"

section \<open>Properties of the address extractor\<close>

declare match_address.simps [simp del]
declare bit_length.simps [simp del]
declare decimal.simps [simp del]

lemma is_address_length: "is_address a \<Longrightarrow> length a = 42"
  by (simp add: is_address_def)

text \<open>
  A match is a substring of the address shape, and no substring of that shape starts
  further left.
\<close>

lemma match_address_Some:
  "match_address t = Some a \<Longrightarrow>
     is_address a \<and>
     (\<exists>pre post. t = pre @ a @ post \<and>
        (\<forall>pre' a' post'. t = pre' @ a' @ post' \<and> is_address a' \<longrightarrow> length pre \<le> length pre'))"
proof (induction t)
  case Nil
  then show ?case by (simp add: match_address.simps)
next
  case (Cons c cs)
  show ?case
  proof (cases "is_address (take 42 (c # cs))")
    case True
    with Cons.prems have a: "a = take 42 (c # cs)" by (simp add: match_address.simps)
    have "c # cs = [] @ a @ drop 42 (c # cs)" unfolding a by simp
    moreover have "\<forall>pre' a' post'. c # cs = pre' @ a' @ post' \<and> is_address a'
                     \<longrightarrow> length ([] :: string) \<le> length pre'"
      by simp
    ultimately show ?thesis using True a by blast
  next
    case False
    with Cons.prems have m: "match_address cs = Some a" by (simp add: match_address.simps)
    from Cons.IH [OF m] obtain pre post where
      addr: "is_address a" and split: "cs = pre @ a @ post" and
      least: "\<forall>pre' a' post'. cs = pre' @ a' @ post' \<and> is_address a' \<longrightarrow> length pre \<le> length pre'"
      by blast
    have "c # cs = (c # pre) @ a @ post" using split by simp
    moreover have "\<forall>pre' a' post'. c # cs = pre' @ a' @ post' \<and> is_address a'
                     \<longrightarrow> length (c # pre) \<le> length pre'"
    proof (intro allI impI)
      fix pre' a' post'
      assume h: "c # cs = pre' @ a' @ post' \<and> is_address a'"
      show "length (c # pre) \<le> length pre'"
      proof (cases pre')
        case Nil
        with h have "take 42 (c # cs) = a'" by (simp add: is_address_length)
        with h False show ?thesis by simp
      next
        case (Cons x xs)
        with h have "cs = xs @ a' @ post'" by simp
        with least h have "length pre \<le> length xs" by blast
        with Cons show ?thesis by simp
      qed
    qed
    ultimately show ?thesis using addr by blast
  qed
qed

lemma match_address_None: "match_address t = None \<Longrightarrow> \<not> contains_address t"
proof (induction t)
  case Nil
  then show ?case by (auto simp: contains_address_def is_address_def)
next
  case (Cons c cs)
  from Cons.prems have no: "\<not> is_address (take 42 (c # cs))" and rest: "match_address cs = None"
    by (simp_all add: match_address.simps split: if_splits)
  from Cons.IH [OF rest] have ih: "\<not> contains_address cs" .
  show ?case
  proof
    assume "contains_address (c # cs)"
    then obtain pre a post where s: "c # cs = pre @ a @ post" and a: "is_address a"
      unfolding contains_address_def by blast
    show False
    proof (cases pre)
      case Nil
      with s a have "take 42 (c # cs) = a" by (simp add: is_address_length)
      with a no show False by simp
    next
      case (Cons x xs)
      with s have "cs = xs @ a @ post" by simp
      with a ih show False unfolding contains_address_def by blast
    qed
  qed
qed

lemma match_address_None_iff: "match_address t = None \<longleftrightarrow> \<not> contains_address t"
proof
  assume "match_address t = None"
  then show "\<not> contains_address t" by (rule match_address_None)
next
  assume n: "\<not> contains_address t"
  show "match_address t = None"
  proof (cases "match_address t")
    case None
    then show ?thesis .
  next
    case (Some a)
    from match_address_Some [OF Some] n show ?thesis
      unfolding contains_address_def by blast
  qed
qed

lemma match_address_contains: "match_address t = Some a \<Longrightarrow> contains_address t"
  using match_address_None_iff [of t] by simp

lemma extract_address_truthy:
  "match_address (content_text msg) = Some a \<Longrightarrow> \<not> falsy (extract_address msg options)"
  by (auto simp: extract_address_def falsy_def dest!: match_address_Some is_address_length)

lemma extract_address_no_match:
  "\<not> contains_address (content_text msg) \<Longrightarrow>
     extract_address msg options = options_address options"
  by (simp add: extract_address_def match_address_None_iff [symmetric])

lemma falsy_extract_address:
  "falsy (extract_address msg options) \<longleftrightarrow>
     \<not> contains_address (content_text msg) \<and> falsy (options_address options)"
proof (cases "match_address (content_text msg)")
  case None
  then show ?thesis by (simp add: extract_address_def match_address_None_iff [symmetric])
next
  case (Some b)
  with extract_address_truthy [OF Some] show ?thesis
    by (simp add: match_address_None_iff [symmetric])
qed

text \<open>The example message of the source, used as a concrete input below.\<close>

lemma example_match:
  "match_address ''Show me transactions for 0x742d35Cc6634C0532925a3b844Bc454e4438f44e'' =
     Some ''0x742d35Cc6634C0532925a3b844Bc454e4438f44e''"
  by code_simp

lemma example_extract:
  "extract_address
     \<lparr>content_text = ''Show me transactions for 0x742d35Cc6634C0532925a3b844Bc454e4438f44e''\<rparr>
     options = Some ''0x742d35Cc6634C0532925a3b844Bc454e4438f44e''"
  by (simp add: extract_address_def example_match)

lemma example_no_match: "\<not> contains_address ''What is my balance?''"
proof -
  have "match_address ''What is my balance?'' = None" by code_simp
  then show ?thesis by (rule match_address_None)
qed

text \<open>
  Claim C7. Whenever the text contains a substring made of \<^verbatim>\<open>0x\<close> and forty hexadecimal
  characters, the extractor returns such a substring of the text, the leftmost one, whatever
  surrounds it and whatever address the options carry.
\<close>

theorem extract_address_first_match:
  assumes "contains_address (content_text msg)"
  shows "\<exists>pre a post. content_text msg = pre @ a @ post \<and> is_address a \<and>
           (\<forall>pre' a' post'. content_text msg = pre' @ a' @ post' \<and> is_address a'
              \<longrightarrow> length pre \<le> length pre') \<and>
           extract_address msg options = Some a"
proof -
  from assms obtain a where m: "match_address (content_text msg) = Some a"
    using match_address_None_iff [of "content_text msg"]
    by (cases "match_address (content_text msg)") auto
  from match_address_Some [OF m] m show ?thesis
    by (auto simp: extract_address_def)
qed

theorem extract_address_first_match_witness:
  "contains_address ''Show me transactions for 0x742d35Cc6634C0532925a3b844Bc454e4438f44e'' \<and>
   extract_address
     \<lparr>content_text = ''Show me transactions for 0x742d35Cc6634C0532925a3b844Bc454e4438f44e''\<rparr>
     (Some \<lparr>address = Some ''0x0000000000000000000000000000000000000001''\<rparr>) =
   Some ''0x742d35Cc6634C0532925a3b844Bc454e4438f44e''"
proof -
  let ?t = "''Show me transactions for 0x742d35Cc6634C0532925a3b844Bc454e4438f44e''"
  let ?o = "Some \<lparr>address = Some ''0x0000000000000000000000000000000000000001''\<rparr>"
  have c: "contains_address (content_text \<lparr>content_text = ?t\<rparr>)"
    using match_address_contains [OF example_match] by simp
  from extract_address_first_match [OF c, of ?o] obtain a where
    e: "extract_address \<lparr>content_text = ?t\<rparr> ?o = Some a" by blast
  from e have "a = ''0x742d35Cc6634C0532925a3b844Bc454e4438f44e''"
    unfolding example_extract by simp
  with e c show ?thesis by simp
qed

section \<open>Properties of the handlers\<close>


text \<open>
  Claim C3. When the text contains no substring of the address shape and the options
  carry no address, the balance handler and the transactions handler call the callback
  with the prompt for a valid address and issue no HTTP request; when that call returns,
  the prompt is all the handler does.
\<close>

theorem no_address_prompt:
  assumes "\<not> contains_address (content_text msg)" and "options_address options = None"
  shows "http_requests (fst (getBalance_handler http msg options (Some callback))) = [] \<and>
         http_requests (fst (getTransactions_handler http msg options (Some callback))) = [] \<and>
         take 1 (fst (getBalance_handler http msg options (Some callback))) =
           [Callback ''Please provide a valid Mode network address''] \<and>
         take 1 (fst (getTransactions_handler http msg options (Some callback))) =
           [Callback ''Please provide a valid Mode network address''] \<and>
         (callback 0 ''Please provide a valid Mode network address'' = None \<longrightarrow>
            getBalance_handler http msg options (Some callback) =
              ([Callback ''Please provide a valid Mode network address''], Returned) \<and>
            getTransactions_handler http msg options (Some callback) =
              ([Callback ''Please provide a valid Mode network address''], Returned))"
  using assms
  by (simp add: getBalance_handler_def getBalance_try_def getTransactions_handler_def
      getTransactions_try_def extract_address_no_match falsy_def http_requests_def
      reply_in_try_def reply_in_catch_def callbacks_def split: option.split)

theorem no_address_prompt_witness:
  "\<not> contains_address ''What is my balance?'' \<and>
   getBalance_handler no_network \<lparr>content_text = ''What is my balance?''\<rparr> None
     (Some quiet_callback) =
     ([Callback ''Please provide a valid Mode network address''], Returned) \<and>
   getTransactions_handler no_network \<lparr>content_text = ''What is my balance?''\<rparr>
     (Some \<lparr>address = None\<rparr>) (Some quiet_callback) =
     ([Callback ''Please provide a valid Mode network address''], Returned)"
proof -
  let ?m = "\<lparr>content_text = ''What is my balance?''\<rparr>"
  have c: "\<not> contains_address (content_text ?m)"
    using example_no_match by simp
  have o1: "options_address None = None" and o2: "options_address (Some \<lparr>address = None\<rparr>) = None"
    by (simp_all add: options_address_def)
  have q: "quiet_callback 0 ''Please provide a valid Mode network address'' = None"
    by (simp add: quiet_callback_def)
  from no_address_prompt [OF c o1, of no_network quiet_callback]
    no_address_prompt [OF c o2, of no_network quiet_callback] q example_no_match
  show ?thesis by blast
qed




text \<open>Whatever the callback does, no handler calls it more than twice.\<close>

lemma callbacks_at_most_twice:
  "length (callbacks (fst (getBalance_handler http msg options (Some callback)))) \<le> 2 \<and>
   length (callbacks (fst (getLatestBlock_handler type_error http (Some callback)))) \<le> 2 \<and>
   length (callbacks (fst (getTransactions_handler http msg options (Some callback)))) \<le> 2"
proof (intro conjI)
  show "length (callbacks (fst (getBalance_handler http msg options (Some callback)))) \<le> 2"
    by (simp add: getBalance_handler_def getBalance_try_def callbacks_def Let_def
        reply_in_try_def reply_in_catch_def split: http_outcome.split option.split)
  show "length (callbacks (fst (getLatestBlock_handler type_error http (Some callback)))) \<le> 2"
    by (simp add: getLatestBlock_handler_def getLatestBlock_try_def callbacks_def Let_def
        reply_in_try_def reply_in_catch_def split: http_outcome.split option.split list.split)
  show "length (callbacks (fst (getTransactions_handler http msg options (Some callback)))) \<le> 2"
    by (simp add: getTransactions_handler_def getTransactions_try_def callbacks_def Let_def
        reply_in_try_def reply_in_catch_def split: http_outcome.split option.split)
qed




text \<open>
  Claim C8. When the HTTP request a handler issues is rejected with an error, the handler
  logs the error and calls the callback exactly once, with \<^verbatim>\<open>Failed to fetch balance: \<close>,
  \<^verbatim>\<open>Failed to fetch latest block: \<close> or \<^verbatim>\<open>Failed to fetch transactions: \<close> followed by the
  error's message. The handler returns when that call does.
\<close>

theorem rejected_request_reported:
  "(\<not> falsy (extract_address msg options) \<and>
    http (BLOCKSCOUT_API @ ''/v2/addresses/'' @ interpolate (extract_address msg options))
      = Rejects e
    \<longrightarrow> getBalance_handler http msg options (Some callback) =
          ([HttpGet (BLOCKSCOUT_API @ ''/v2/addresses/'' @
                     interpolate (extract_address msg options)),
            LoggerError ''Error fetching balance:'' e,
            Callback (''Failed to fetch balance: '' @ error_message e)],
           case callback 0 (''Failed to fetch balance: '' @ error_message e) of
             None \<Rightarrow> Returned | Some thrown \<Rightarrow> Rejected thrown)) \<and>
   (http (BLOCKSCOUT_API @ ''/v2/blocks'') = Rejects e
    \<longrightarrow> getLatestBlock_handler type_error http (Some callback) =
          ([HttpGet (BLOCKSCOUT_API @ ''/v2/blocks''),
            LoggerError ''Error fetching latest block:'' e,
            Callback (''Failed to fetch latest block: '' @ error_message e)],
           case callback 0 (''Failed to fetch latest block: '' @ error_message e) of
             None \<Rightarrow> Returned | Some thrown \<Rightarrow> Rejected thrown)) \<and>
   (\<not> falsy (extract_address msg options) \<and>
    http (BLOCKSCOUT_API @ ''/v2/addresses/'' @ interpolate (extract_address msg options)
          @ ''/transactions'') = Rejects e
    \<longrightarrow> getTransactions_handler http msg options (Some callback) =
          ([HttpGet (BLOCKSCOUT_API @ ''/v2/addresses/'' @
                     interpolate (extract_address msg options) @ ''/transactions''),
            LoggerError ''Error fetching transactions:'' e,
            Callback (''Failed to fetch transactions: '' @ error_message e)],
           case callback 0 (''Failed to fetch transactions: '' @ error_message e) of
             None \<Rightarrow> Returned | Some thrown \<Rightarrow> Rejected thrown))"
  by (simp add: getBalance_handler_def getBalance_try_def getLatestBlock_handler_def
      getLatestBlock_try_def getTransactions_handler_def getTransactions_try_def
      reply_in_catch_def callbacks_def)

theorem rejected_request_reported_witness:
  "getBalance_handler (\<lambda>url. Rejects (Error ''Network Error''))
     \<lparr>content_text = ''Show me transactions for 0x742d35Cc6634C0532925a3b844Bc454e4438f44e''\<rparr>
     None (Some quiet_callback) =
     ([HttpGet ''https://explorer.mode.network/api/v2/addresses/0x742d35Cc6634C0532925a3b844Bc454e4438f44e'',
       LoggerError ''Error fetching balance:'' (Error ''Network Error''),
       Callback ''Failed to fetch balance: Network Error''], Returned) \<and>
   getLatestBlock_handler (\<lambda>property. ''cannot read '' @ property)
     (\<lambda>url. Rejects (Error ''Network Error'')) (Some quiet_callback) =
     ([HttpGet ''https://explorer.mode.network/api/v2/blocks'',
       LoggerError ''Error fetching latest block:'' (Error ''Network Error''),
       Callback ''Failed to fetch latest block: Network Error''], Returned) \<and>
   getTransactions_handler (\<lambda>url. Rejects (Error ''Network Error''))
     \<lparr>content_text = ''Show me transactions for 0x742d35Cc6634C0532925a3b844Bc454e4438f44e''\<rparr>
     None (Some quiet_callback) =
     ([HttpGet ''https://explorer.mode.network/api/v2/addresses/0x742d35Cc6634C0532925a3b844Bc454e4438f44e/transactions'',
       LoggerError ''Error fetching transactions:'' (Error ''Network Error''),
       Callback ''Failed to fetch transactions: Network Error''], Returned)"
proof -
  let ?m = "\<lparr>content_text =
    ''Show me transactions for 0x742d35Cc6634C0532925a3b844Bc454e4438f44e''\<rparr>"
  let ?n = "\<lambda>url :: string. Rejects (Error ''Network Error'')"
  let ?e = "\<lambda>property. ''cannot read '' @ property"
  have a: "\<not> falsy (extract_address ?m None)"
    by (simp add: example_extract falsy_def)
  from rejected_request_reported [of ?m None ?n "Error ''Network Error''" quiet_callback ?e] a
  have "getBalance_handler ?n ?m None (Some quiet_callback) =
          ([HttpGet (BLOCKSCOUT_API @ ''/v2/addresses/'' @ interpolate (extract_address ?m None)),
            LoggerError ''Error fetching balance:'' (Error ''Network Error''),
            Callback (''Failed to fetch balance: '' @ error_message (Error ''Network Error''))],
           case quiet_callback 0 (''Failed to fetch balance: '' @
                  error_message (Error ''Network Error'')) of
             None \<Rightarrow> Returned | Some thrown \<Rightarrow> Rejected thrown)"
    and "getLatestBlock_handler ?e ?n (Some quiet_callback) =
          ([HttpGet (BLOCKSCOUT_API @ ''/v2/blocks''),
            LoggerError ''Error fetching latest block:'' (Error ''Network Error''),
            Callback (''Failed to fetch latest block: '' @ error_message (Error ''Network Error''))],
           case quiet_callback 0 (''Failed to fetch latest block: '' @
                  error_message (Error ''Network Error'')) of
             None \<Rightarrow> Returned | Some thrown \<Rightarrow> Rejected thrown)"
    and "getTransactions_handler ?n ?m None (Some quiet_callback) =
          ([HttpGet (BLOCKSCOUT_API @ ''/v2/addresses/'' @ interpolate (extract_address ?m None)
                     @ ''/transactions''),
            LoggerError ''Error fetching transactions:'' (Error ''Network Error''),
            Callback (''Failed to fetch transactions: '' @ error_message (Error ''Network Error''))],
           case quiet_callback 0 (''Failed to fetch transactions: '' @
                  error_message (Error ''Network Error'')) of
             None \<Rightarrow> Returned | Some thrown \<Rightarrow> Rejected thrown)"
    by blast+
  then show ?thesis
    by (simp add: quiet_callback_def example_extract interpolate_def BLOCKSCOUT_API_def)
qed

text \<open>
  Claim C9. When the blocks endpoint answers with an envelope whose status is not
  \<^verbatim>\<open>success\<close> and whose list of items is empty or missing, the latest-block handler
  never renders a block with \<^verbatim>\<open>N/A\<close> fields: reading the first item throws, the error is
  caught, and the callback is called once with \<^verbatim>\<open>Failed to fetch latest block: \<close> followed by
  the message of the error. The handler returns when that call does.
\<close>

theorem empty_block_list_reported_as_error:
  assumes "http (BLOCKSCOUT_API @ ''/v2/blocks'') = Resolves (Some env)"
    and "status env \<noteq> Some ''success''"
    and "items env = None \<or> items env = Some []"
  shows "callbacks (fst (getLatestBlock_handler type_error http (Some callback))) =
           [''Failed to fetch latest block: '' @
              type_error (if items env = None then ''0'' else ''height'')] \<and>
         snd (getLatestBlock_handler type_error http (Some callback)) =
           (case callback 0 (''Failed to fetch latest block: '' @
                   type_error (if items env = None then ''0'' else ''height'')) of
              None \<Rightarrow> Returned | Some thrown \<Rightarrow> Rejected thrown) \<and>
         (\<forall>block. callbacks (fst (getLatestBlock_handler type_error http (Some callback)))
                    \<noteq> [render_block block])"
  using assms
  by (auto simp: getLatestBlock_handler_def getLatestBlock_try_def loose_eq_def callbacks_def
      render_block_def reply_in_catch_def)

theorem empty_block_list_reported_as_error_witness:
  "callbacks (fst (getLatestBlock_handler (\<lambda>property. ''cannot read '' @ property)
     (\<lambda>url. Resolves (Some \<lparr>items = Some [], data = None, status = None, message = None,
                              coin_balance = None\<rparr>)) (Some quiet_callback)))
     = [''Failed to fetch latest block: cannot read height''] \<and>
   snd (getLatestBlock_handler (\<lambda>property. ''cannot read '' @ property)
     (\<lambda>url. Resolves (Some \<lparr>items = Some [], data = None, status = None, message = None,
                              coin_balance = None\<rparr>)) (Some quiet_callback)) = Returned \<and>
   callbacks (fst (getLatestBlock_handler (\<lambda>property. ''cannot read '' @ property)
     (\<lambda>url. Resolves (Some \<lparr>items = None, data = None, status = Some ''error'',
                              message = Some ''Not found'', coin_balance = None\<rparr>))
     (Some quiet_callback)))
     = [''Failed to fetch latest block: cannot read 0'']"
proof -
  let ?e = "\<lambda>property. ''cannot read '' @ property"
  let ?r1 = "\<lparr>items = Some [], data = None, status = None, message = None,
              coin_balance = None\<rparr>"
  let ?r2 = "\<lparr>items = None, data = None, status = Some ''error'',
              message = Some ''Not found'', coin_balance = None\<rparr>"
  have "(\<lambda>url :: string. Resolves (Some ?r1)) (BLOCKSCOUT_API @ ''/v2/blocks'') = Resolves (Some ?r1)"
    and "status ?r1 \<noteq> Some ''success''" and "items ?r1 = None \<or> items ?r1 = Some []"
    by simp_all
  from empty_block_list_reported_as_error [OF this, of ?e quiet_callback]
  have one: "callbacks (fst (getLatestBlock_handler ?e (\<lambda>url. Resolves (Some ?r1))
                 (Some quiet_callback)))
               = [''Failed to fetch latest block: cannot read height''] \<and>
             snd (getLatestBlock_handler ?e (\<lambda>url. Resolves (Some ?r1))
                 (Some quiet_callback)) = Returned"
    by (simp add: quiet_callback_def)
  have "(\<lambda>url :: string. Resolves (Some ?r2)) (BLOCKSCOUT_API @ ''/v2/blocks'') = Resolves (Some ?r2)"
    and "status ?r2 \<noteq> Some ''success''" and "items ?r2 = None \<or> items ?r2 = Some []"
    by simp_all
  from empty_block_list_reported_as_error [OF this, of ?e quiet_callback]
  have two: "callbacks (fst (getLatestBlock_handler ?e (\<lambda>url. Resolves (Some ?r2))
                 (Some quiet_callback)))
               = [''Failed to fetch latest block: cannot read 0'']"
    by simp
  from one two show ?thesis by simp
qed

text \<open>
  Claim C6. On the path of the transactions handler taken when the status equals
  \<^verbatim>\<open>success\<close>: an empty list of items gives the reply \<^verbatim>\<open>No transactions found for\<close> and the
  address; otherwise the reply is a header naming the address, a blank line, and the first
  five entries only, each one three lines (the hash, the value or \<^verbatim>\<open>0\<close> when it is missing
  or empty, the timestamp or \<^verbatim>\<open>N/A\<close> when it is missing or empty), with a blank line between
  entries. That reply is the first call of the callback, and the only one when the call
  returns.
\<close>

theorem transactions_reply_first_five:
  assumes "\<not> falsy (extract_address msg options)"
    and "http (BLOCKSCOUT_API @ ''/v2/addresses/'' @ interpolate (extract_address msg options)
               @ ''/transactions'') = Resolves (Some env)"
    and "status env = Some ''success''"
  shows "(let reply =
           (if response_transactions env = []
            then ''No transactions found for '' @ interpolate (extract_address msg options)
            else ''Recent transactions for '' @ interpolate (extract_address msg options) @ '':'' @
                 ''\<newline>\<newline>'' @
                 join ''\<newline>\<newline>''
                   (map (\<lambda>tx. join ''\<newline>''
                           [''Hash: '' @ interpolate (tx_hash tx),
                            ''Value: '' @ (case tx_value tx of None \<Rightarrow> ''0''
                                           | Some v \<Rightarrow> if v = [] then ''0'' else v) @ '' ETH'',
                            ''Timestamp: '' @ (case tx_timestamp tx of None \<Rightarrow> ''N/A''
                                               | Some t \<Rightarrow> if t = [] then ''N/A'' else t)])
                      (take 5 (response_transactions env))))
         in callbacks (fst (getTransactions_handler http msg options (Some callback))) =
              reply # (case callback 0 reply of
                         None \<Rightarrow> []
                       | Some thrown \<Rightarrow>
                           [''Failed to fetch transactions: '' @ error_message thrown]))"
proof -
  have r: "render_transaction = (\<lambda>tx. join ''\<newline>''
                           [''Hash: '' @ interpolate (tx_hash tx),
                            ''Value: '' @ (case tx_value tx of None \<Rightarrow> ''0''
                                           | Some v \<Rightarrow> if v = [] then ''0'' else v) @ '' ETH'',
                            ''Timestamp: '' @ (case tx_timestamp tx of None \<Rightarrow> ''N/A''
                                               | Some t \<Rightarrow> if t = [] then ''N/A'' else t)])"
    by (rule ext) (simp add: render_transaction_def or_else_def falsy_def split: option.split)
  show ?thesis using assms
    by (simp add: getTransactions_handler_def getTransactions_try_def loose_eq_def callbacks_def
        Let_def r reply_in_try_def reply_in_catch_def split: option.split)
qed

theorem transactions_reply_first_five_witness:
  "callbacks (fst (getTransactions_handler
     (\<lambda>url. Resolves (Some \<lparr>items = None,
        data = Some \<lparr>page_items = Some
          [\<lparr>tx_hash = Some ''0xa1'', tx_value = Some ''10'', tx_timestamp = Some ''T1''\<rparr>,
           \<lparr>tx_hash = Some ''0xa2'', tx_value = None, tx_timestamp = Some ''T2''\<rparr>,
           \<lparr>tx_hash = Some ''0xa3'', tx_value = Some [], tx_timestamp = None\<rparr>,
           \<lparr>tx_hash = Some ''0xa4'', tx_value = Some ''40'', tx_timestamp = Some ''T4''\<rparr>,
           \<lparr>tx_hash = Some ''0xa5'', tx_value = Some ''50'', tx_timestamp = Some ''T5''\<rparr>,
           \<lparr>tx_hash = Some ''0xa6'', tx_value = Some ''60'', tx_timestamp = Some ''T6''\<rparr>,
           \<lparr>tx_hash = Some ''0xa7'', tx_value = Some ''70'', tx_timestamp = Some ''T7''\<rparr>]\<rparr>,
        status = Some ''success'', message = None, coin_balance = None\<rparr>))
     \<lparr>content_text = ''Show me transactions for 0x742d35Cc6634C0532925a3b844Bc454e4438f44e''\<rparr>
     None (Some quiet_callback))) =
   [''Recent transactions for 0x742d35Cc6634C0532925a3b844Bc454e4438f44e:\<newline>\<newline>'' @
    ''Hash: 0xa1\<newline>Value: 10 ETH\<newline>Timestamp: T1\<newline>\<newline>'' @
    ''Hash: 0xa2\<newline>Value: 0 ETH\<newline>Timestamp: T2\<newline>\<newline>'' @
    ''Hash: 0xa3\<newline>Value: 0 ETH\<newline>Timestamp: N/A\<newline>\<newline>'' @
    ''Hash: 0xa4\<newline>Value: 40 ETH\<newline>Timestamp: T4\<newline>\<newline>'' @
    ''Hash: 0xa5\<newline>Value: 50 ETH\<newline>Timestamp: T5'']"
proof -
  let ?m = "\<lparr>content_text =
    ''Show me transactions for 0x742d35Cc6634C0532925a3b844Bc454e4438f44e''\<rparr>"
  let ?r = "\<lparr>items = None,
        data = Some \<lparr>page_items = Some
          [\<lparr>tx_hash = Some ''0xa1'', tx_value = Some ''10'', tx_timestamp = Some ''T1''\<rparr>,
           \<lparr>tx_hash = Some ''0xa2'', tx_value = None, tx_timestamp = Some ''T2''\<rparr>,
           \<lparr>tx_hash = Some ''0xa3'', tx_value = Some [], tx_timestamp = None\<rparr>,
           \<lparr>tx_hash = Some ''0xa4'', tx_value = Some ''40'', tx_timestamp = Some ''T4''\<rparr>,
           \<lparr>tx_hash = Some ''0xa5'', tx_value = Some ''50'', tx_timestamp = Some ''T5''\<rparr>,
           \<lparr>tx_hash = Some ''0xa6'', tx_value = Some ''60'', tx_timestamp = Some ''T6''\<rparr>,
           \<lparr>tx_hash = Some ''0xa7'', tx_value = Some ''70'', tx_timestamp = Some ''T7''\<rparr>]\<rparr>,
        status = Some ''success'', message = None, coin_balance = None\<rparr>"
  have a: "\<not> falsy (extract_address ?m None)"
    by (simp add: example_extract falsy_def)
  have h: "(\<lambda>url :: string. Resolves (Some ?r))
             (BLOCKSCOUT_API @ ''/v2/addresses/'' @ interpolate (extract_address ?m None)
              @ ''/transactions'') = Resolves (Some ?r)"
    by simp
  have s: "status ?r = Some ''success''" by simp
  from transactions_reply_first_five [OF a h s, of quiet_callback] show ?thesis
    by (simp add: example_extract response_transactions_def interpolate_def Let_def
        quiet_callback_def)
qed


lemma one_ether: "balance ''1000000000000000000'' = ''1.00000''"
  by code_simp



text \<open>
  A handler begins as its \<^verbatim>\<open>try\<close> block does: with the prompt when there is no address to
  use, with the GET otherwise.
\<close>

lemma take_1_append: "take 1 xs = (if c then [x] else [y]) \<Longrightarrow> take 1 (xs @ ys) = take 1 xs"
  by (cases xs) (simp_all split: if_splits)

lemma getBalance_try_head:
  "take 1 (fst (getBalance_try http msg options callback)) =
     (if falsy (extract_address msg options)
      then [Callback ''Please provide a valid Mode network address'']
      else [HttpGet (BLOCKSCOUT_API @ ''/v2/addresses/'' @
                     interpolate (extract_address msg options))])"
  by (simp add: getBalance_try_def Let_def reply_in_try_def
      split: http_outcome.split option.split)

lemma getTransactions_try_head:
  "take 1 (fst (getTransactions_try http msg options callback)) =
     (if falsy (extract_address msg options)
      then [Callback ''Please provide a valid Mode network address'']
      else [HttpGet (BLOCKSCOUT_API @ ''/v2/addresses/'' @
                     interpolate (extract_address msg options) @ ''/transactions'')])"
  by (simp add: getTransactions_try_def Let_def reply_in_try_def
      split: http_outcome.split option.split)

lemma getBalance_handler_begins:
  "\<exists>more. fst (getBalance_handler http msg options (Some callback)) =
            fst (getBalance_try http msg options callback) @ more"
proof (cases "getBalance_try http msg options callback")
  case (Pair evs r)
  then show ?thesis
    by (cases r) (simp_all add: getBalance_handler_def reply_in_catch_def)
qed

lemma getTransactions_handler_begins:
  "\<exists>more. fst (getTransactions_handler http msg options (Some callback)) =
            fst (getTransactions_try http msg options callback) @ more"
proof (cases "getTransactions_try http msg options callback")
  case (Pair evs r)
  then show ?thesis
    by (cases r) (simp_all add: getTransactions_handler_def reply_in_catch_def)
qed

lemma getBalance_handler_head:
  "take 1 (fst (getBalance_handler http msg options (Some callback))) =
     (if falsy (extract_address msg options)
      then [Callback ''Please provide a valid Mode network address'']
      else [HttpGet (BLOCKSCOUT_API @ ''/v2/addresses/'' @
                     interpolate (extract_address msg options))])"
proof -
  obtain more where "fst (getBalance_handler http msg options (Some callback)) =
      fst (getBalance_try http msg options callback) @ more"
    using getBalance_handler_begins by blast
  then show ?thesis
    by (simp only: take_1_append [OF getBalance_try_head] getBalance_try_head)
qed

lemma getTransactions_handler_head:
  "take 1 (fst (getTransactions_handler http msg options (Some callback))) =
     (if falsy (extract_address msg options)
      then [Callback ''Please provide a valid Mode network address'']
      else [HttpGet (BLOCKSCOUT_API @ ''/v2/addresses/'' @
                     interpolate (extract_address msg options) @ ''/transactions'')])"
proof -
  obtain more where "fst (getTransactions_handler http msg options (Some callback)) =
      fst (getTransactions_try http msg options callback) @ more"
    using getTransactions_handler_begins by blast
  then show ?thesis
    by (simp only: take_1_append [OF getTransactions_try_head] getTransactions_try_head)
qed

text \<open>
  Claim C10. The address of the options is not checked against the address shape. When the
  text has no match, any non-empty address of the options goes verbatim into the URL and
  the GET is issued. The handler begins with the prompt for a valid address, and the prompt
  is the whole of what it does when that call returns, exactly when the text has no match
  and the options give no address to use: none at all, or the empty string, which
  \<^verbatim>\<open>!address\<close> treats alike.
\<close>

theorem options_address_not_validated:
  "(\<not> contains_address (content_text msg) \<and> options_address options = Some a \<and> a \<noteq> []
    \<longrightarrow> http_requests (fst (getBalance_handler http msg options (Some callback))) =
          [BLOCKSCOUT_API @ ''/v2/addresses/'' @ a] \<and>
        http_requests (fst (getTransactions_handler http msg options (Some callback))) =
          [BLOCKSCOUT_API @ ''/v2/addresses/'' @ a @ ''/transactions'']) \<and>
   (take 1 (fst (getBalance_handler http msg options (Some callback))) =
      [Callback ''Please provide a valid Mode network address'']
    \<longleftrightarrow> \<not> contains_address (content_text msg) \<and> falsy (options_address options)) \<and>
   (take 1 (fst (getTransactions_handler http msg options (Some callback))) =
      [Callback ''Please provide a valid Mode network address'']
    \<longleftrightarrow> \<not> contains_address (content_text msg) \<and> falsy (options_address options)) \<and>
   (callback 0 ''Please provide a valid Mode network address'' = None \<longrightarrow>
      (fst (getBalance_handler http msg options (Some callback)) =
         [Callback ''Please provide a valid Mode network address'']
       \<longleftrightarrow> \<not> contains_address (content_text msg) \<and> falsy (options_address options)) \<and>
      (fst (getTransactions_handler http msg options (Some callback)) =
         [Callback ''Please provide a valid Mode network address'']
       \<longleftrightarrow> \<not> contains_address (content_text msg) \<and> falsy (options_address options)))"
proof -
  have get: "\<not> contains_address (content_text msg) \<and> options_address options = Some a \<and> a \<noteq> []
    \<longrightarrow> http_requests (fst (getBalance_handler http msg options (Some callback))) =
          [BLOCKSCOUT_API @ ''/v2/addresses/'' @ a] \<and>
        http_requests (fst (getTransactions_handler http msg options (Some callback))) =
          [BLOCKSCOUT_API @ ''/v2/addresses/'' @ a @ ''/transactions'']"
  proof (intro impI)
    assume h: "\<not> contains_address (content_text msg) \<and> options_address options = Some a
                 \<and> a \<noteq> []"
    then have e: "extract_address msg options = Some a"
      by (simp add: extract_address_no_match)
    have "http_requests (fst (getBalance_handler http msg options (Some callback))) =
            [BLOCKSCOUT_API @ ''/v2/addresses/'' @ a]"
      using h
      by (simp add: getBalance_handler_def getBalance_try_def e falsy_def interpolate_def
          http_requests_def Let_def reply_in_try_def reply_in_catch_def
          split: http_outcome.split option.split)
    moreover
    have "http_requests (fst (getTransactions_handler http msg options (Some callback))) =
            [BLOCKSCOUT_API @ ''/v2/addresses/'' @ a @ ''/transactions'']"
      using h
      by (simp add: getTransactions_handler_def getTransactions_try_def e falsy_def
          interpolate_def http_requests_def Let_def reply_in_try_def reply_in_catch_def
          split: http_outcome.split option.split)
    ultimately show
      "http_requests (fst (getBalance_handler http msg options (Some callback))) =
          [BLOCKSCOUT_API @ ''/v2/addresses/'' @ a] \<and>
       http_requests (fst (getTransactions_handler http msg options (Some callback))) =
          [BLOCKSCOUT_API @ ''/v2/addresses/'' @ a @ ''/transactions'']"
      by (rule conjI)
  qed
  have b1: "take 1 (fst (getBalance_handler http msg options (Some callback))) =
      [Callback ''Please provide a valid Mode network address'']
    \<longleftrightarrow> falsy (extract_address msg options)"
    unfolding getBalance_handler_head by simp
  have t1: "take 1 (fst (getTransactions_handler http msg options (Some callback))) =
      [Callback ''Please provide a valid Mode network address'']
    \<longleftrightarrow> falsy (extract_address msg options)"
    unfolding getTransactions_handler_head by simp
  have b: "callback 0 ''Please provide a valid Mode network address'' = None \<longrightarrow>
      (fst (getBalance_handler http msg options (Some callback)) =
         [Callback ''Please provide a valid Mode network address'']
       \<longleftrightarrow> falsy (extract_address msg options))"
    by (simp add: getBalance_handler_def getBalance_try_def Let_def reply_in_try_def
        reply_in_catch_def callbacks_def split: http_outcome.split option.split)
  have t: "callback 0 ''Please provide a valid Mode network address'' = None \<longrightarrow>
      (fst (getTransactions_handler http msg options (Some callback)) =
         [Callback ''Please provide a valid Mode network address'']
       \<longleftrightarrow> falsy (extract_address msg options))"
    by (simp add: getTransactions_handler_def getTransactions_try_def Let_def reply_in_try_def
        reply_in_catch_def callbacks_def split: http_outcome.split option.split)
  from get b1 t1 b t falsy_extract_address [of msg options] show ?thesis by simp
qed

theorem options_address_not_validated_witness:
  "http_requests (fst (getBalance_handler no_network
     \<lparr>content_text = ''What is my balance?''\<rparr> (Some \<lparr>address = Some ''not an address''\<rparr>)
     (Some quiet_callback)))
     = [''https://explorer.mode.network/api/v2/addresses/not an address''] \<and>
   http_requests (fst (getTransactions_handler no_network
     \<lparr>content_text = ''What is my balance?''\<rparr> (Some \<lparr>address = Some ''not an address''\<rparr>)
     (Some quiet_callback)))
     = [''https://explorer.mode.network/api/v2/addresses/not an address/transactions''] \<and>
   fst (getBalance_handler no_network
     \<lparr>content_text = ''What is my balance?''\<rparr> (Some \<lparr>address = Some []\<rparr>)
     (Some quiet_callback))
     = [Callback ''Please provide a valid Mode network address'']"
proof -
  let ?m = "\<lparr>content_text = ''What is my balance?''\<rparr>"
  let ?o = "Some \<lparr>address = Some ''not an address''\<rparr>"
  let ?z = "Some \<lparr>address = Some []\<rparr>"
  have c: "\<not> contains_address (content_text ?m)"
    using example_no_match by simp
  have o: "options_address ?o = Some ''not an address''" and n: "''not an address'' \<noteq> []"
    and z: "falsy (options_address ?z)"
    and q: "quiet_callback 0 ''Please provide a valid Mode network address'' = None"
    by (simp_all add: options_address_def falsy_def quiet_callback_def)
  from options_address_not_validated [of ?m ?o "''not an address''" no_network quiet_callback]
    c o n
  have "http_requests (fst (getBalance_handler no_network ?m ?o (Some quiet_callback))) =
          [BLOCKSCOUT_API @ ''/v2/addresses/'' @ ''not an address'']"
    and "http_requests (fst (getTransactions_handler no_network ?m ?o (Some quiet_callback))) =
          [BLOCKSCOUT_API @ ''/v2/addresses/'' @ ''not an address'' @ ''/transactions'']"
    by blast+
  moreover from options_address_not_validated [of ?m ?z "[]" no_network quiet_callback] c z q
  have "fst (getBalance_handler no_network ?m ?z (Some quiet_callback))
          = [Callback ''Please provide a valid Mode network address'']"
    by blast
  ultimately show ?thesis by (simp add: BLOCKSCOUT_API_def)
qed

section \<open>The success check\<close>

text \<open>
  The balance handler reports the failure text when the envelope is absent or its status
  equals \<^verbatim>\<open>success\<close>, and renders the balance otherwise.
\<close>

lemma getBalance_failure_branch:
  assumes "\<not> falsy (extract_address msg options)"
    and "http (BLOCKSCOUT_API @ ''/v2/addresses/'' @ interpolate (extract_address msg options))
           = Resolves response_data"
    and "response_data = None \<or> (\<exists>env. response_data = Some env \<and> status env = Some ''success'')"
  shows "take 2 (fst (getBalance_handler http msg options (Some callback))) =
           [HttpGet (BLOCKSCOUT_API @ ''/v2/addresses/'' @ interpolate (extract_address msg options)),
            Callback (case response_data of
                        None \<Rightarrow> ''Failed to fetch balance''
                      | Some env \<Rightarrow> or_else (message env) ''Failed to fetch balance'')]"
  using assms
  by (auto simp: getBalance_handler_def getBalance_try_def loose_eq_def reply_in_try_def
      reply_in_catch_def Let_def callbacks_def split: option.split)

lemma getBalance_render_branch:
  assumes "\<not> falsy (extract_address msg options)"
    and "http (BLOCKSCOUT_API @ ''/v2/addresses/'' @ interpolate (extract_address msg options))
           = Resolves (Some env)"
    and "status env \<noteq> Some ''success''"
  shows "take 1 (callbacks (fst (getBalance_handler http msg options (Some callback)))) =
           [''The balance for '' @ interpolate (extract_address msg options) @ '' is '' @
            balance (balanceInWei env) @ '' ETH'']"
  using assms
  by (simp add: getBalance_handler_def getBalance_try_def loose_eq_def callbacks_def Let_def
      reply_in_try_def reply_in_catch_def split: option.split)

text \<open>The transactions handler reports the failure text when the envelope is absent or its
  status is not \<^verbatim>\<open>success\<close>.\<close>

lemma getTransactions_failure_branch:
  assumes "\<not> falsy (extract_address msg options)"
    and "http (BLOCKSCOUT_API @ ''/v2/addresses/'' @ interpolate (extract_address msg options)
               @ ''/transactions'') = Resolves response_data"
    and "response_data = None \<or> (\<exists>env. response_data = Some env \<and> status env \<noteq> Some ''success'')"
  shows "take 2 (fst (getTransactions_handler http msg options (Some callback))) =
           [HttpGet (BLOCKSCOUT_API @ ''/v2/addresses/'' @ interpolate (extract_address msg options)
                     @ ''/transactions''),
            Callback (case response_data of
                        None \<Rightarrow> ''Failed to fetch transactions''
                      | Some env \<Rightarrow> or_else (message env) ''Failed to fetch transactions'')]"
  using assms
  by (auto simp: getTransactions_handler_def getTransactions_try_def loose_eq_def
      reply_in_try_def reply_in_catch_def Let_def callbacks_def split: option.split)

text \<open>
  The latest-block handler, once the log statement has read \<^verbatim>\<open>items[0]\<close>, reports the failure
  text when the status equals \<^verbatim>\<open>success\<close> and renders the first block otherwise.
\<close>

lemma getLatestBlock_failure_branch:
  assumes "http (BLOCKSCOUT_API @ ''/v2/blocks'') = Resolves (Some env)"
    and "items env = Some blocks"
    and "status env = Some ''success''"
  shows "take 1 (callbacks (fst (getLatestBlock_handler type_error http (Some callback)))) =
           [or_else (message env) ''Failed to fetch latest block'']"
  using assms
  by (simp add: getLatestBlock_handler_def getLatestBlock_try_def loose_eq_def callbacks_def
      Let_def reply_in_try_def reply_in_catch_def split: option.split)

lemma getLatestBlock_render_branch:
  assumes "http (BLOCKSCOUT_API @ ''/v2/blocks'') = Resolves (Some env)"
    and "items env = Some (block # blocks)"
    and "status env \<noteq> Some ''success''"
  shows "take 1 (callbacks (fst (getLatestBlock_handler type_error http (Some callback)))) =
           [render_block block]"
  using assms
  by (simp add: getLatestBlock_handler_def getLatestBlock_try_def loose_eq_def callbacks_def
      Let_def reply_in_try_def reply_in_catch_def split: option.split)

lemma getBalance_one_ether_without_status:
  "callbacks (fst (getBalance_handler
     (\<lambda>url. Resolves (Some \<lparr>items = None, data = None, status = None, message = None,
                              coin_balance = Some ''1000000000000000000''\<rparr>))
     \<lparr>content_text = ''Show me transactions for 0x742d35Cc6634C0532925a3b844Bc454e4438f44e''\<rparr>
     None (Some quiet_callback))) =
   [''The balance for 0x742d35Cc6634C0532925a3b844Bc454e4438f44e is 1.00000 ETH'']"
proof -
  let ?m = "\<lparr>content_text =
    ''Show me transactions for 0x742d35Cc6634C0532925a3b844Bc454e4438f44e''\<rparr>"
  let ?r = "\<lparr>items = None, data = None, status = None, message = None,
             coin_balance = Some ''1000000000000000000''\<rparr>"
  have a: "\<not> falsy (extract_address ?m None)"
    by (simp add: example_extract falsy_def)
  have o: "balanceInWei ?r = ''1000000000000000000''"
    by (simp add: balanceInWei_def or_else_def falsy_def)
  show ?thesis
    using a
    by (simp add: getBalance_handler_def getBalance_try_def loose_eq_def callbacks_def Let_def
        reply_in_try_def quiet_callback_def o one_ether example_extract interpolate_def)
qed

text \<open>
  Claim C1. The three handlers test the status inconsistently: the balance and the
  latest-block handler call the callback with the failure text (the message of the
  envelope, or the generic text) exactly when the envelope is absent or its status equals
  \<^verbatim>\<open>success\<close>, the transactions handler exactly when the envelope is absent or its status is
  not \<^verbatim>\<open>success\<close>. The lemmas of this section show the balance and transactions handlers do
  so. The latest-block handler logs \<^verbatim>\<open>response.data.items[0]\<close> before its check: with the
  envelope absent, or with the status \<^verbatim>\<open>success\<close> and no list of items, that read throws
  and the callback receives the text of the catch block, not the failure text.
\<close>

theorem getLatestBlock_check_after_read:
  "getLatestBlock_handler type_error (\<lambda>url. Resolves None) (Some callback) =
     ([HttpGet (BLOCKSCOUT_API @ ''/v2/blocks''),
       LoggerError ''Error fetching latest block:'' (Error (type_error ''items'')),
       Callback (''Failed to fetch latest block: '' @ type_error ''items'')],
      case callback 0 (''Failed to fetch latest block: '' @ type_error ''items'') of
        None \<Rightarrow> Returned | Some thrown \<Rightarrow> Rejected thrown) \<and>
   callbacks (fst (getLatestBlock_handler type_error (\<lambda>url. Resolves None) (Some callback)))
     \<noteq> [''Failed to fetch latest block''] \<and>
   callbacks (fst (getLatestBlock_handler type_error
     (\<lambda>url. Resolves (Some \<lparr>items = None, data = None, status = Some ''success'',
                              message = Some ''Something went wrong'', coin_balance = None\<rparr>))
     (Some callback)))
     = [''Failed to fetch latest block: '' @ type_error ''0'']"
  by (simp add: getLatestBlock_handler_def getLatestBlock_try_def callbacks_def
      reply_in_catch_def)

text \<open>
  Claim C2. For a balance response whose status is \<^verbatim>\<open>success\<close> and whose \<^verbatim>\<open>coin_balance\<close> is
  \<^verbatim>\<open>1000000000000000000\<close>, the reply should contain \<^verbatim>\<open>1.00000 ETH\<close>. The handler takes its
  failure branch when the status equals \<^verbatim>\<open>success\<close>: at this input the reply is the generic
  failure text. The same response without a status is rendered as \<^verbatim>\<open>1.00000 ETH\<close>
  (\<open>getBalance_one_ether_without_status\<close>).
\<close>

theorem getBalance_success_status_fails:
  "getBalance_handler
     (\<lambda>url. Resolves (Some \<lparr>items = None, data = None, status = Some ''success'',
                              message = None, coin_balance = Some ''1000000000000000000''\<rparr>))
     \<lparr>content_text = ''Show me transactions for 0x742d35Cc6634C0532925a3b844Bc454e4438f44e''\<rparr>
     None (Some quiet_callback) =
   ([HttpGet ''https://explorer.mode.network/api/v2/addresses/0x742d35Cc6634C0532925a3b844Bc454e4438f44e'',
     Callback ''Failed to fetch balance''], Returned) \<and>
   take 2 (fst (getBalance_handler
     (\<lambda>url. Resolves (Some \<lparr>items = None, data = None, status = Some ''success'',
                              message = None, coin_balance = Some ''1000000000000000000''\<rparr>))
     \<lparr>content_text = ''Show me transactions for 0x742d35Cc6634C0532925a3b844Bc454e4438f44e''\<rparr>
     None (Some callback))) =
   [HttpGet ''https://explorer.mode.network/api/v2/addresses/0x742d35Cc6634C0532925a3b844Bc454e4438f44e'',
    Callback ''Failed to fetch balance'']"
  by (simp add: getBalance_handler_def getBalance_try_def example_extract falsy_def
      interpolate_def loose_eq_def or_else_def BLOCKSCOUT_API_def reply_in_try_def
      reply_in_catch_def quiet_callback_def callbacks_def split: option.split)

end
